theory Spec2Isabelle
  imports Main "HOL-Library.Word" "HOL-Library.Sublist" "HOL-Library.Char_ord"
begin

section \<open>The C++ type \<open>double\<close>\<close>

text \<open>
  \<open>run_pipeline\<close> computes with \<open>double\<close>. A value of the type is a NaN, an
  infinity with its sign, or a finite number \<open>(-1)\<^sup>s \<times> m \<times> 2\<^sup>e\<close> in the canonical
  form of IEEE 754 binary64: \<open>m < 2\<^sup>5\<^sup>3\<close>, \<open>-1074 \<le> e \<le> 971\<close>, and \<open>2\<^sup>5\<^sup>2 \<le> m\<close> unless
  \<open>e = -1074\<close> (zero and the subnormal numbers). The two zeros are \<open>Fin False 0 (-1074)\<close>
  and \<open>Fin True 0 (-1074)\<close>. All NaNs are one value: payloads are not modelled. Equality
  in HOL is identity of values (NaN is identical to NaN, \<open>+0.0\<close> differs from \<open>-0.0\<close>);
  the C++ operator \<open>==\<close> is \<open>deq\<close> below.
\<close>

datatype double = NaN | Inf bool | Fin bool nat int

text \<open>The number of binary digits of \<open>n\<close>.\<close>

fun bitlen :: "nat \<Rightarrow> nat" where
  "bitlen n = (if n = 0 then 0 else Suc (bitlen (n div 2)))"

declare bitlen.simps [simp del]

text \<open>
  \<open>round_double s n d\<close> is the binary64 value nearest to \<open>(-1)\<^sup>s \<times> n / d\<close> (for \<open>d > 0\<close>),
  ties to the even significand, overflow to infinity: the default rounding of every
  arithmetic operation. With \<open>k = bitlen n - bitlen d\<close> the quotient lies strictly
  between \<open>2\<^sup>k\<^sup>-\<^sup>1\<close> and \<open>2\<^sup>k\<^sup>+\<^sup>1\<close>, so the exponent of its leading bit is \<open>k\<close> or \<open>k - 1\<close>.
\<close>

definition round_double :: "bool \<Rightarrow> nat \<Rightarrow> nat \<Rightarrow> double" where
  "round_double s n d =
     (if n = 0 then Fin s 0 (- 1074)
      else
        let k = int (bitlen n) - int (bitlen d);
            l = (if (if 0 \<le> k then d * 2 ^ nat k \<le> n else d \<le> n * 2 ^ nat (- k))
                 then k else k - 1);
            e = max (l - 52) (- 1074);
            num = (if 0 \<le> e then n else n * 2 ^ nat (- e));
            den = (if 0 \<le> e then d * 2 ^ nat e else d);
            q = num div den;
            r = num mod den;
            q' = (if den < 2 * r \<or> (2 * r = den \<and> odd q) then q + 1 else q);
            m = (if q' = 2 ^ 53 then 2 ^ 52 else q');
            e' = (if q' = 2 ^ 53 then e + 1 else e)
        in if 971 < e' then Inf s else Fin s m e')"

text \<open>The value nearest to \<open>(-1)\<^sup>s \<times> (n / d) \<times> 2\<^sup>e\<close>.\<close>

definition round_scaled :: "bool \<Rightarrow> nat \<Rightarrow> nat \<Rightarrow> int \<Rightarrow> double" where
  "round_scaled s n d e =
     (if 0 \<le> e then round_double s (n * 2 ^ nat e) d
      else round_double s n (d * 2 ^ nat (- e)))"

definition dzero :: double where
  "dzero = Fin False 0 (- 1074)"

text \<open>A decimal literal \<open>n / d\<close> of the source, as the compiler rounds it.\<close>

definition dlit :: "nat \<Rightarrow> nat \<Rightarrow> double" where
  "dlit n d = round_double False n d"

fun dneg :: "double \<Rightarrow> double" where
  "dneg NaN = NaN"
| "dneg (Inf s) = Inf (\<not> s)"
| "dneg (Fin s m e) = Fin (\<not> s) m e"

text \<open>\<open>std::abs\<close> on a double clears the sign.\<close>

fun dabs :: "double \<Rightarrow> double" where
  "dabs NaN = NaN"
| "dabs (Inf s) = Inf False"
| "dabs (Fin s m e) = Fin False m e"

text \<open>
  Addition. Two finite numbers are added exactly, as integers over the smaller
  exponent, and the sum is rounded; an exact zero sum is \<open>-0.0\<close> only when both
  operands are negative (zeros), otherwise \<open>+0.0\<close>.
\<close>

fun dadd :: "double \<Rightarrow> double \<Rightarrow> double" where
  "dadd NaN b = NaN"
| "dadd a NaN = NaN"
| "dadd (Inf s) (Inf t) = (if s = t then Inf s else NaN)"
| "dadd (Inf s) (Fin t n f) = Inf s"
| "dadd (Fin s m e) (Inf t) = Inf t"
| "dadd (Fin s m e) (Fin t n f) =
     (let g = min e f;
          a = (if s then - int m else int m) * 2 ^ nat (e - g);
          b = (if t then - int n else int n) * 2 ^ nat (f - g);
          c = a + b
      in if c = 0 then Fin (s \<and> t) 0 (- 1074)
         else round_scaled (c < 0) (nat \<bar>c\<bar>) 1 g)"

definition dsub :: "double \<Rightarrow> double \<Rightarrow> double" where
  "dsub a b = dadd a (dneg b)"

fun dmul :: "double \<Rightarrow> double \<Rightarrow> double" where
  "dmul NaN b = NaN"
| "dmul a NaN = NaN"
| "dmul (Inf s) (Inf t) = Inf (s \<noteq> t)"
| "dmul (Inf s) (Fin t n f) = (if n = 0 then NaN else Inf (s \<noteq> t))"
| "dmul (Fin s m e) (Inf t) = (if m = 0 then NaN else Inf (s \<noteq> t))"
| "dmul (Fin s m e) (Fin t n f) = round_scaled (s \<noteq> t) (m * n) 1 (e + f)"

fun ddiv :: "double \<Rightarrow> double \<Rightarrow> double" where
  "ddiv NaN b = NaN"
| "ddiv a NaN = NaN"
| "ddiv (Inf s) (Inf t) = NaN"
| "ddiv (Inf s) (Fin t n f) = Inf (s \<noteq> t)"
| "ddiv (Fin s m e) (Inf t) = Fin (s \<noteq> t) 0 (- 1074)"
| "ddiv (Fin s m e) (Fin t n f) =
     (if n = 0 then (if m = 0 then NaN else Inf (s \<noteq> t))
      else round_scaled (s \<noteq> t) m n (e - f))"

text \<open>The integer square root, by binary digits.\<close>

fun isqrt :: "nat \<Rightarrow> nat" where
  "isqrt n =
     (if n < 2 then n
      else let s = 2 * isqrt (n div 4)
           in if (s + 1) * (s + 1) \<le> n then s + 1 else s)"

declare isqrt.simps [simp del]

text \<open>
  \<open>std::sqrt\<close>, correctly rounded. The significand is scaled by \<open>2\<^sup>1\<^sup>2\<^sup>8\<close> so that the
  integer root has at least 65 bits; when the root is not exact, half a unit in the
  last place of the integer root stands for the remainder: no binary64 value and no
  midpoint of two of them lies strictly between consecutive integers of that size.
\<close>

fun dsqrt :: "double \<Rightarrow> double" where
  "dsqrt NaN = NaN"
| "dsqrt (Inf s) = (if s then NaN else Inf False)"
| "dsqrt (Fin s m e) =
     (if m = 0 then Fin s 0 (- 1074)
      else if s then NaN
      else
        let m1 = (if even e then m else 2 * m);
            e1 = (if even e then e else e - 1);
            M = m1 * 2 ^ 128;
            t = isqrt M
        in round_scaled False (2 * t + (if t * t = M then 0 else 1)) 2 (e1 div 2 - 64))"

text \<open>The comparison \<open>==\<close> of C++: false on a NaN, true on two zeros of either sign.\<close>

fun deq :: "double \<Rightarrow> double \<Rightarrow> bool" where
  "deq NaN b = False"
| "deq a NaN = False"
| "deq (Fin s m e) (Fin t n f) = ((m = 0 \<and> n = 0) \<or> (s = t \<and> m = n \<and> e = f))"
| "deq a b = (a = b)"

text \<open>The two zeros.\<close>

fun is_dzero :: "double \<Rightarrow> bool" where
  "is_dzero (Fin s m e) = (m = 0)"
| "is_dzero a = False"

section \<open>The data model (integration_runner.hpp)\<close>

text \<open>The C++ type \<open>int\<close>: 32 bits, read as a signed number by \<open>sint\<close>.\<close>

type_synonym c_int = "32 word"

record CameraConfig =
  focal_length :: double
  pixel_size :: double

record RunResult =
  success :: bool
  error_message :: string
  num_edges :: c_int
  distance_m :: double
  altitude_m :: double
  ground_truth_m :: double
  error_m :: double
  error_percent :: double

text \<open>The default member initialisers of \<open>RunResult\<close>: the value of \<open>RunResult r;\<close>.\<close>

definition RunResult_init :: RunResult where
  "RunResult_init =
     \<lparr>success = False, error_message = [], num_edges = 0, distance_m = dzero,
      altitude_m = dzero, ground_truth_m = dzero, error_m = dzero, error_percent = dzero\<rparr>"

section \<open>What the pipeline calls outside the repository\<close>

text \<open>
  \<open>found::Image\<close> is filled from what \<open>stbi_load\<close> returns: width, height and
  channels through its \<open>int\<close> out-parameters, and the pixel bytes.
\<close>

record Image =
  width :: c_int
  height :: c_int
  channels :: c_int
  data :: "8 word list"

text \<open>\<open>found::PositionVector\<close>: the members \<open>x\<close>, \<open>y\<close>, \<open>z\<close>, taken to be doubles.\<close>

datatype PositionVector = Vec3 double double double

text \<open>
  A C++ \<open>throw\<close> can raise an object of any type. What matters to \<open>run_pipeline\<close> is
  whether the handler \<open>catch (const std::exception& e)\<close> matches it: an object of a
  class derived from \<open>std::exception\<close>, given here by the text of \<open>e.what()\<close>, or an
  object of any other type.
\<close>

datatype thrown = StdException string | OtherThrown

text \<open>
  The library functions \<open>run_pipeline\<close> calls are parameters of the model: none of
  their code belongs to the repository.
  \<^item> \<open>fopen_rb p\<close>: whether \<open>fopen(p, "rb")\<close> returns a stream (it returns \<open>NULL\<close> when
    no file exists at \<open>p\<close>);
  \<^item> \<open>stbi_load p\<close>: the decoded image, or \<open>None\<close> for the null pointer;
  \<^item> \<open>SimpleEdgeDetectionAlgorithm_Run a b c img\<close>: constructing
    \<open>found::SimpleEdgeDetectionAlgorithm(a, b, c)\<close> and calling \<open>Run(img)\<close>; the result
    is the vector \<open>found::Points\<close>, as the list of its elements, or the object thrown;
  \<^item> \<open>Camera f p w h\<close>: the constructor of \<open>found::Camera\<close>;
  \<^item> \<open>IterativeSphericalDistanceDeterminationAlgorithm_Run\<close>: constructing the
    algorithm from the eight arguments of the source and calling \<open>Run(edges)\<close>.
  The two calls of \<open>fopen_rb\<close> and \<open>stbi_load\<close> are separate parameters: nothing ties
  what the decoder finds to what the probe found.
\<close>

record ('pt, 'cam) external =
  fopen_rb :: "string \<Rightarrow> bool"
  stbi_load :: "string \<Rightarrow> Image option"
  SimpleEdgeDetectionAlgorithm_Run :: "int \<Rightarrow> int \<Rightarrow> int \<Rightarrow> Image \<Rightarrow> thrown + 'pt list"
  Camera :: "double \<Rightarrow> double \<Rightarrow> c_int \<Rightarrow> c_int \<Rightarrow> thrown + 'cam"
  IterativeSphericalDistanceDeterminationAlgorithm_Run ::
    "double \<Rightarrow> 'cam \<Rightarrow> int \<Rightarrow> int \<Rightarrow> int \<Rightarrow> double \<Rightarrow> int \<Rightarrow> int \<Rightarrow> 'pt list
       \<Rightarrow> thrown + PositionVector"

text \<open>
  \<open>std::string::c_str\<close> as a C function reads it: the characters before the first NUL.
\<close>

definition c_str :: "string \<Rightarrow> string" where
  "c_str s = takeWhile (\<lambda>c. c \<noteq> CHR 0x00) s"

section \<open>run_pipeline (integration_runner.cpp, lines 23 to 96)\<close>

definition RADIUS_OF_EARTH :: double where
  "RADIUS_OF_EARTH = dlit 6378137 1"

text \<open>
  The body of the \<open>try\<close> block, lines 38 to 89. \<open>Inr r\<close>: control leaves the block
  normally, by one of its \<open>return r\<close> or by reaching its end (the function then
  returns \<open>r\<close> at line 95). \<open>Inl (e, r)\<close>: a call threw \<open>e\<close>, and \<open>r\<close> is the record as
  it stood then (\<open>num_edges\<close> is assigned before the camera and the distance
  algorithm run). The conversion \<open>static_cast<int>(edges.size())\<close> keeps the low 32
  bits of the size.
\<close>

definition try_block ::
  "('pt, 'cam) external \<Rightarrow> string \<Rightarrow> CameraConfig \<Rightarrow> double \<Rightarrow> RunResult
     \<Rightarrow> (thrown \<times> RunResult) + RunResult" where
  "try_block X image_path camera gt r =
     (case stbi_load X (c_str image_path) of
        None \<Rightarrow> Inr (r\<lparr>error_message := ''Could not load image: '' @ image_path\<rparr>)
      | Some img \<Rightarrow>
          (case SimpleEdgeDetectionAlgorithm_Run X 10 1 0 img of
             Inl e \<Rightarrow> Inl (e, r)
           | Inr edges \<Rightarrow>
               let r1 = r\<lparr>num_edges := of_nat (length edges)\<rparr> in
               if edges = [] then Inr (r1\<lparr>error_message := ''No edges detected''\<rparr>)
               else
                 (case Camera X (focal_length camera) (pixel_size camera)
                         (width img) (height img) of
                    Inl e \<Rightarrow> Inl (e, r1)
                  | Inr cam \<Rightarrow>
                      (case IterativeSphericalDistanceDeterminationAlgorithm_Run X
                              RADIUS_OF_EARTH cam 2 1 10 (dlit 11 10) 2 4 edges of
                         Inl e \<Rightarrow> Inl (e, r1)
                       | Inr (Vec3 px py pz) \<Rightarrow>
                           let r2 = r1\<lparr>distance_m :=
                                      dsqrt (dadd (dadd (dmul px px) (dmul py py)) (dmul pz pz))\<rparr>;
                               r3 = r2\<lparr>altitude_m := dsub (distance_m r2) RADIUS_OF_EARTH\<rparr>;
                               r4 = r3\<lparr>error_m := dabs (dsub (distance_m r3) gt)\<rparr>;
                               r5 = r4\<lparr>error_percent :=
                                      dmul (ddiv (error_m r4) gt) (dlit 100 1)\<rparr>
                           in Inr (r5\<lparr>success := True\<rparr>)))))"

text \<open>
  \<open>run_pipeline\<close>. \<open>Inr r\<close>: the function returns \<open>r\<close>. \<open>Inl e\<close>: the object \<open>e\<close>
  leaves the function as an exception, which happens when the handler of line 91
  does not match it.
  Running out of memory (\<open>std::bad_alloc\<close> from a string concatenation) is not
  modelled.
\<close>

definition run_pipeline ::
  "('pt, 'cam) external \<Rightarrow> string \<Rightarrow> CameraConfig \<Rightarrow> double \<Rightarrow> thrown + RunResult" where
  "run_pipeline X image_path camera ground_truth =
     (let r = RunResult_init\<lparr>ground_truth_m := ground_truth\<rparr> in
      if \<not> fopen_rb X (c_str image_path)
      then Inr (r\<lparr>error_message := ''Image file not found: '' @ image_path\<rparr>)
      else
        (case try_block X image_path camera ground_truth r of
           Inr r' \<Rightarrow> Inr r'
         | Inl (StdException what, r') \<Rightarrow> Inr (r'\<lparr>error_message := what\<rparr>)
         | Inl (OtherThrown, r') \<Rightarrow> Inl OtherThrown))"

text \<open>
  \<open>external_throws X image_path camera e\<close>: in the run of \<open>run_pipeline\<close> on these
  arguments the probe succeeds and a call of the external algorithms inside the
  \<open>try\<close> block throws \<open>e\<close>: the edge detector, or else the camera constructor, or
  else the distance algorithm, each on the arguments the source gives it.
\<close>

definition external_throws ::
  "('pt, 'cam) external \<Rightarrow> string \<Rightarrow> CameraConfig \<Rightarrow> thrown \<Rightarrow> bool" where
  "external_throws X image_path camera e =
     (fopen_rb X (c_str image_path) \<and>
      (case stbi_load X (c_str image_path) of
         None \<Rightarrow> False
       | Some img \<Rightarrow>
           (case SimpleEdgeDetectionAlgorithm_Run X 10 1 0 img of
              Inl e' \<Rightarrow> e' = e
            | Inr edges \<Rightarrow>
                edges \<noteq> [] \<and>
                (case Camera X (focal_length camera) (pixel_size camera)
                        (width img) (height img) of
                   Inl e' \<Rightarrow> e' = e
                 | Inr cam \<Rightarrow>
                     (case IterativeSphericalDistanceDeterminationAlgorithm_Run X
                             RADIUS_OF_EARTH cam 2 1 10 (dlit 11 10) 2 4 edges of
                        Inl e' \<Rightarrow> e' = e
                      | Inr pos \<Rightarrow> False)))))"

section \<open>print_result and write_result_json (lines 102 to 137)\<close>

text \<open>
  What the two output functions use of the C++ standard library, as parameters:
  \<^item> \<open>ostream_double x\<close>: the characters \<open>operator<<\<close> writes for the double \<open>x\<close> on
    a stream in its default state;
  \<^item> \<open>ofstream_open p\<close>: whether \<open>std::ofstream f(p)\<close> opens the file for writing.
\<close>

record stdlib =
  ostream_double :: "double \<Rightarrow> string"
  ofstream_open :: "string \<Rightarrow> bool"

text \<open>\<open>operator<<\<close> on an \<open>int\<close>: the decimal digits, after a minus sign when negative.\<close>

fun decimal :: "nat \<Rightarrow> string" where
  "decimal n =
     (if n < 10 then [char_of (48 + n)]
      else decimal (n div 10) @ [char_of (48 + n mod 10)])"

declare decimal.simps [simp del]

definition ostream_int :: "c_int \<Rightarrow> string" where
  "ostream_int i =
     (if sint i < 0 then CHR ''-'' # decimal (nat (- sint i)) else decimal (nat (sint i)))"

text \<open>
  The state the two functions run in: the object their parameter
  \<open>const RunResult& r\<close> refers to, the characters written to \<open>std::cout\<close> so far, and
  the contents of the files, by path.
\<close>

record program_state =
  arg_r :: RunResult
  cout :: string
  files :: "string \<Rightarrow> string option"

text \<open>The characters \<open>print_result\<close> sends to \<open>std::cout\<close>.\<close>

definition print_result_text :: "stdlib \<Rightarrow> RunResult \<Rightarrow> string" where
  \<open>print_result_text L r =
     (if \<not> success r then ''[integration] FAILED: '' @ error_message r @ ''\<newline>''
      else
        ''[integration] edges:        '' @ ostream_int (num_edges r) @ ''\<newline>''
        @ ''[integration] distance:     ''
        @ ostream_double L (ddiv (distance_m r) (dlit 1000000 1))
        @ '' Mm  (''
        @ ostream_double L (ddiv (altitude_m r) (dlit 1000 1))
        @ '' km alt)\<newline>''
        @ ''[integration] ground truth: ''
        @ ostream_double L (ddiv (ground_truth_m r) (dlit 1000000 1)) @ '' Mm\<newline>''
        @ ''[integration] error:        ''
        @ ostream_double L (ddiv (error_m r) (dlit 1000 1))
        @ '' km  (''
        @ ostream_double L (error_percent r) @ ''%)\<newline>'')\<close>

definition print_result :: "stdlib \<Rightarrow> program_state \<Rightarrow> program_state" where
  "print_result L s = s\<lparr>cout := cout s @ print_result_text L (arg_r s)\<rparr>"

text \<open>The characters \<open>write_result_json\<close> sends to the file stream \<open>f\<close>.\<close>

definition json_text :: "stdlib \<Rightarrow> RunResult \<Rightarrow> string" where
  \<open>json_text L r =
     ''{\<newline>''
     @ ''  "success": '' @ (if success r then ''true'' else ''false'') @ '',\<newline>''
     @ (if \<not> success r
        then ''  "error": "'' @ error_message r @ ''"\<newline>}\<newline>''
        else
          ''  "num_edges": '' @ ostream_int (num_edges r) @ '',\<newline>''
          @ ''  "distance_m": '' @ ostream_double L (distance_m r) @ '',\<newline>''
          @ ''  "altitude_m": '' @ ostream_double L (altitude_m r) @ '',\<newline>''
          @ ''  "ground_truth_m": '' @ ostream_double L (ground_truth_m r) @ '',\<newline>''
          @ ''  "error_m": '' @ ostream_double L (error_m r) @ '',\<newline>''
          @ ''  "error_percent": '' @ ostream_double L (error_percent r) @ ''\<newline>''
          @ ''}\<newline>'')\<close>

text \<open>
  \<open>write_result_json\<close>. The first component is the exception that leaves the
  function (\<open>std::runtime_error\<close>, when the stream does not open), or \<open>None\<close> when it
  returns; the second is the state it leaves. The stream opens the file named by the
  characters of \<open>path\<close> before its first NUL, and replaces its contents.
\<close>

definition write_result_json ::
  "stdlib \<Rightarrow> string \<Rightarrow> program_state \<Rightarrow> thrown option \<times> program_state" where
  "write_result_json L path s =
     (if \<not> ofstream_open L (c_str path)
      then (Some (StdException (''Cannot write: '' @ path)), s)
      else (None, s\<lparr>files := (files s)(c_str path \<mapsto> json_text L (arg_r s))\<rparr>))"

section \<open>JSON texts\<close>

text \<open>
  What ``parseable JSON'' means: the grammar of RFC 8259, as a parser. A string
  value keeps the characters between its quotes as they are written (escape
  sequences are checked, not decoded); a number keeps its digits.
\<close>

datatype json =
  JNull | JBool bool | JNumber string | JString string
  | JArray "json list" | JObject "(string \<times> json) list"

datatype 'a parse = Parsed 'a string | Syntax_Error | Out_Of_Fuel

definition is_ws :: "char \<Rightarrow> bool" where
  "is_ws c = (c = CHR 0x20 \<or> c = CHR 0x09 \<or> c = CHR 0x0A \<or> c = CHR 0x0D)"

definition skip_ws :: "string \<Rightarrow> string" where
  "skip_ws s = dropWhile is_ws s"

definition is_digit :: "char \<Rightarrow> bool" where
  "is_digit c = (CHR ''0'' \<le> c \<and> c \<le> CHR ''9'')"

definition is_hex :: "char \<Rightarrow> bool" where
  "is_hex c =
     (is_digit c \<or> (CHR ''a'' \<le> c \<and> c \<le> CHR ''f'') \<or> (CHR ''A'' \<le> c \<and> c \<le> CHR ''F''))"

text \<open>
  The characters of a string after its opening quote, up to the closing quote:
  any character from U+0020 on but the quote (\<open>0x22\<close>) and the backslash (\<open>0x5C\<close>),
  or an escape sequence: a backslash and one of \<open>" \ / b f n r t\<close>, or a backslash,
  \<open>u\<close> and four hexadecimal digits.
\<close>

fun json_string :: "string \<Rightarrow> (string \<times> string) option" where
  "json_string [] = None"
| "json_string (c # cs) =
     (if c = CHR 0x22 then Some ([], cs)
      else if c = CHR 0x5C then
        (case cs of
           [] \<Rightarrow> None
         | e # cs' \<Rightarrow>
             if e \<in> set [CHR 0x22, CHR 0x5C, CHR ''/'', CHR ''b'', CHR ''f'', CHR ''n'',
                          CHR ''r'', CHR ''t'']
             then map_option (\<lambda>(t, rest). (c # e # t, rest)) (json_string cs')
             else if e = CHR ''u'' \<and> 4 \<le> length cs' \<and> list_all is_hex (take 4 cs')
             then map_option (\<lambda>(t, rest). (c # e # take 4 cs' @ t, rest))
                    (json_string (drop 4 cs'))
             else None)
      else if c < CHR 0x20 then None
      else map_option (\<lambda>(t, rest). (c # t, rest)) (json_string cs))"

text \<open>
  A number: an optional minus sign, the integer part (\<open>0\<close>, or a digit from 1 to 9
  followed by digits), an optional fraction (a point and at least one digit), an
  optional exponent (\<open>e\<close> or \<open>E\<close>, an optional sign, at least one digit). Each part
  gives the characters it reads and the rest of the text.
\<close>

definition json_int :: "string \<Rightarrow> (string \<times> string) option" where
  "json_int s =
     (case s of
        [] \<Rightarrow> None
      | c # cs \<Rightarrow>
          if c = CHR ''0'' then Some ([c], cs)
          else if is_digit c then Some (c # takeWhile is_digit cs, dropWhile is_digit cs)
          else None)"

definition json_frac :: "string \<Rightarrow> (string \<times> string) option" where
  "json_frac s =
     (case s of
        [] \<Rightarrow> Some ([], s)
      | c # cs \<Rightarrow>
          if c \<noteq> CHR ''.'' then Some ([], s)
          else if takeWhile is_digit cs = [] then None
          else Some (c # takeWhile is_digit cs, dropWhile is_digit cs))"

definition json_exp :: "string \<Rightarrow> (string \<times> string) option" where
  "json_exp s =
     (case s of
        [] \<Rightarrow> Some ([], s)
      | c # cs \<Rightarrow>
          if c \<noteq> CHR ''e'' \<and> c \<noteq> CHR ''E'' then Some ([], s)
          else
            let sg = (case cs of
                        [] \<Rightarrow> []
                      | d # ds \<Rightarrow> if d = CHR ''+'' \<or> d = CHR ''-'' then [d] else []);
                ds = drop (length sg) cs
            in if takeWhile is_digit ds = [] then None
               else Some (c # sg @ takeWhile is_digit ds, dropWhile is_digit ds))"

definition json_number :: "string \<Rightarrow> (string \<times> string) option" where
  "json_number s =
     (let sg = (case s of [] \<Rightarrow> [] | c # cs \<Rightarrow> if c = CHR ''-'' then [c] else [])
      in case json_int (drop (length sg) s) of
           None \<Rightarrow> None
         | Some (ip, s2) \<Rightarrow>
             (case json_frac s2 of
                None \<Rightarrow> None
              | Some (fr, s3) \<Rightarrow>
                  (case json_exp s3 of
                     None \<Rightarrow> None
                   | Some (ex, rest) \<Rightarrow> Some (sg @ ip @ fr @ ex, rest))))"

text \<open>
  Values, the elements of a non-empty array after its bracket, and the members of a
  non-empty object after its brace. The first argument bounds the number of nested
  calls; \<open>json_parse\<close> starts with twice the length of the text, which is enough
  (\<open>json_parse_decides\<close> below), and a text is JSON when \<open>json_parse\<close> gives
  \<open>Parsed v []\<close>.
\<close>

fun json_value :: "nat \<Rightarrow> string \<Rightarrow> json parse"
  and json_elements :: "nat \<Rightarrow> string \<Rightarrow> json list parse"
  and json_members :: "nat \<Rightarrow> string \<Rightarrow> (string \<times> json) list parse" where
  "json_value 0 s = Out_Of_Fuel"
| "json_value (Suc k) s =
     (case s of
        [] \<Rightarrow> Syntax_Error
      | c # cs \<Rightarrow>
          if c = CHR ''{'' then
            (case skip_ws cs of
               [] \<Rightarrow> Syntax_Error
             | d # ds \<Rightarrow>
                 if d = CHR ''}'' then Parsed (JObject []) ds
                 else (case json_members k (d # ds) of
                         Parsed ms rest \<Rightarrow> Parsed (JObject ms) rest
                       | Syntax_Error \<Rightarrow> Syntax_Error
                       | Out_Of_Fuel \<Rightarrow> Out_Of_Fuel))
          else if c = CHR ''['' then
            (case skip_ws cs of
               [] \<Rightarrow> Syntax_Error
             | d # ds \<Rightarrow>
                 if d = CHR '']'' then Parsed (JArray []) ds
                 else (case json_elements k (d # ds) of
                         Parsed vs rest \<Rightarrow> Parsed (JArray vs) rest
                       | Syntax_Error \<Rightarrow> Syntax_Error
                       | Out_Of_Fuel \<Rightarrow> Out_Of_Fuel))
          else if c = CHR 0x22 then
            (case json_string cs of
               None \<Rightarrow> Syntax_Error
             | Some (t, rest) \<Rightarrow> Parsed (JString t) rest)
          else if take 4 s = ''true'' then Parsed (JBool True) (drop 4 s)
          else if take 5 s = ''false'' then Parsed (JBool False) (drop 5 s)
          else if take 4 s = ''null'' then Parsed JNull (drop 4 s)
          else (case json_number s of
                  None \<Rightarrow> Syntax_Error
                | Some (t, rest) \<Rightarrow> Parsed (JNumber t) rest))"
| "json_elements 0 s = Out_Of_Fuel"
| "json_elements (Suc k) s =
     (case json_value k s of
        Parsed v rest \<Rightarrow>
          (case skip_ws rest of
             [] \<Rightarrow> Syntax_Error
           | d # ds \<Rightarrow>
               if d = CHR '']'' then Parsed [v] ds
               else if d = CHR '','' then
                 (case json_elements k (skip_ws ds) of
                    Parsed vs rest' \<Rightarrow> Parsed (v # vs) rest'
                  | Syntax_Error \<Rightarrow> Syntax_Error
                  | Out_Of_Fuel \<Rightarrow> Out_Of_Fuel)
               else Syntax_Error)
      | Syntax_Error \<Rightarrow> Syntax_Error
      | Out_Of_Fuel \<Rightarrow> Out_Of_Fuel)"
| "json_members 0 s = Out_Of_Fuel"
| "json_members (Suc k) s =
     (case s of
        [] \<Rightarrow> Syntax_Error
      | c # cs \<Rightarrow>
          if c \<noteq> CHR 0x22 then Syntax_Error
          else
            (case json_string cs of
               None \<Rightarrow> Syntax_Error
             | Some (key, rest) \<Rightarrow>
                 (case skip_ws rest of
                    [] \<Rightarrow> Syntax_Error
                  | d # ds \<Rightarrow>
                      if d \<noteq> CHR '':'' then Syntax_Error
                      else
                        (case json_value k (skip_ws ds) of
                           Parsed v rest' \<Rightarrow>
                             (case skip_ws rest' of
                                [] \<Rightarrow> Syntax_Error
                              | d' # ds' \<Rightarrow>
                                  if d' = CHR ''}'' then Parsed [(key, v)] ds'
                                  else if d' = CHR '','' then
                                    (case json_members k (skip_ws ds') of
                                       Parsed ms rest'' \<Rightarrow> Parsed ((key, v) # ms) rest''
                                     | Syntax_Error \<Rightarrow> Syntax_Error
                                     | Out_Of_Fuel \<Rightarrow> Out_Of_Fuel)
                                  else Syntax_Error)
                         | Syntax_Error \<Rightarrow> Syntax_Error
                         | Out_Of_Fuel \<Rightarrow> Out_Of_Fuel))))"

definition json_parse :: "string \<Rightarrow> json parse" where
  "json_parse s =
     (case json_value (Suc (2 * length s)) (skip_ws s) of
        Parsed v rest \<Rightarrow> if skip_ws rest = [] then Parsed v [] else Syntax_Error
      | Syntax_Error \<Rightarrow> Syntax_Error
      | Out_Of_Fuel \<Rightarrow> Out_Of_Fuel)"

text \<open>
  \<open>number_text t\<close>: the characters \<open>t\<close>, written where \<open>write_result_json\<close> writes a
  number (before a comma or a line feed), are read as the JSON number \<open>t\<close>.
\<close>

definition number_text :: "string \<Rightarrow> bool" where
  "number_text t =
     (\<forall>c rest. c = CHR '','' \<or> c = CHR 0x0A \<longrightarrow>
        (\<forall>k. json_value (Suc k) (t @ c # rest) = Parsed (JNumber t) (c # rest)))"

text \<open>
  The characters a JSON string holds as they are: all but the quote, the backslash
  and the control characters below U+0020.
\<close>

definition plain_char :: "char \<Rightarrow> bool" where
  "plain_char c = (c \<noteq> CHR 0x22 \<and> c \<noteq> CHR 0x5C \<and> \<not> c < CHR 0x20)"

section \<open>Concrete inputs\<close>

text \<open>
  External libraries whose every call gives the same answer: the probe, the decoder,
  the edge detector, the camera constructor and the distance algorithm.
\<close>

definition const_external ::
  "bool \<Rightarrow> Image option \<Rightarrow> thrown + unit list \<Rightarrow> thrown + unit \<Rightarrow> thrown + PositionVector
     \<Rightarrow> (unit, unit) external" where
  "const_external probe decoded edges cam pos =
     \<lparr>fopen_rb = (\<lambda>p. probe),
      stbi_load = (\<lambda>p. decoded),
      SimpleEdgeDetectionAlgorithm_Run = (\<lambda>a b c i. edges),
      Camera = (\<lambda>f p w h. cam),
      IterativeSphericalDistanceDeterminationAlgorithm_Run = (\<lambda>R c i1 i2 i3 d i4 i5 es. pos)\<rparr>"

definition sample_image :: Image where
  "sample_image = \<lparr>width = 2, height = 1, channels = 1, data = [0, 255]\<rparr>"

definition sample_camera :: CameraConfig where
  "sample_camera = \<lparr>focal_length = dlit 85 1000, pixel_size = dlit 2 100000\<rparr>"

definition missing_file_external :: "(unit, unit) external" where
  "missing_file_external =
     const_external False None (Inr []) (Inr ()) (Inr (Vec3 dzero dzero dzero))"

definition undecodable_external :: "(unit, unit) external" where
  "undecodable_external =
     const_external True None (Inr []) (Inr ()) (Inr (Vec3 dzero dzero dzero))"

definition no_edges_external :: "(unit, unit) external" where
  "no_edges_external =
     const_external True (Some sample_image) (Inr []) (Inr ()) (Inr (Vec3 dzero dzero dzero))"

definition working_external :: "(unit, unit) external" where
  "working_external =
     const_external True (Some sample_image) (Inr [()]) (Inr ())
       (Inr (Vec3 (dlit 3 1) (dlit 4 1) (dlit 12 1)))"

definition throwing_external :: "thrown \<Rightarrow> (unit, unit) external" where
  "throwing_external e =
     const_external True (Some sample_image) (Inl e) (Inr ()) (Inr (Vec3 dzero dzero dzero))"

definition working_result :: RunResult where
  "working_result =
     \<lparr>success = True, error_message = [], num_edges = 1, distance_m = dlit 13 1,
      altitude_m = dneg (dlit 6378124 1), ground_truth_m = dlit 26 1,
      error_m = dlit 13 1, error_percent = dlit 50 1\<rparr>"

section \<open>Properties of run_pipeline\<close>

subsection \<open>The outcomes of the try block\<close>


lemma try_block_ground_truth:
  "try_block X p cam gt r = Inr r' \<Longrightarrow> ground_truth_m r' = ground_truth_m r"
  by (auto simp: try_block_def Let_def
      split: option.splits sum.splits if_splits PositionVector.splits)

lemma try_block_thrown_ground_truth:
  "try_block X p cam gt r = Inl (e, r') \<Longrightarrow> ground_truth_m r' = ground_truth_m r"
  by (auto simp: try_block_def Let_def
      split: option.splits sum.splits if_splits PositionVector.splits)

text \<open>
  C10. Whenever \<open>run_pipeline\<close> returns a record, in a success or in any failure, its
  field \<open>ground_truth_m\<close> is the argument \<open>ground_truth_m\<close> of the call.
\<close>

theorem run_pipeline_ground_truth:
  "run_pipeline X image_path camera gt = Inr r \<Longrightarrow> ground_truth_m r = gt"
proof -
  assume ret: "run_pipeline X image_path camera gt = Inr r"
  let ?r0 = "RunResult_init\<lparr>ground_truth_m := gt\<rparr>"
  show ?thesis
  proof (cases "fopen_rb X (c_str image_path)")
    case False
    with ret show ?thesis by (auto simp: run_pipeline_def)
  next
    case True
    show ?thesis
    proof (cases "try_block X image_path camera gt ?r0")
      case (Inr r')
      with ret True have "r = r'" by (simp add: run_pipeline_def)
      with try_block_ground_truth [OF Inr] show ?thesis by simp
    next
      case (Inl a)
      obtain e r' where a: "a = (e, r')" by (cases a)
      with ret True Inl obtain what where "e = StdException what"
        and "r = r'\<lparr>error_message := what\<rparr>"
        by (cases e) (auto simp: run_pipeline_def)
      with try_block_thrown_ground_truth [OF Inl [unfolded a]] show ?thesis by simp
    qed
  qed
qed

theorem run_pipeline_ground_truth_witness:
  "run_pipeline missing_file_external ''missing.png'' sample_camera (dlit 26 1)
     = Inr (RunResult_init\<lparr>ground_truth_m := dlit 26 1,
              error_message := ''Image file not found: missing.png''\<rparr>)
   \<and> ground_truth_m (RunResult_init\<lparr>ground_truth_m := dlit 26 1,
              error_message := ''Image file not found: missing.png''\<rparr>) = dlit 26 1"
proof -
  have run: "run_pipeline missing_file_external ''missing.png'' sample_camera (dlit 26 1)
     = Inr (RunResult_init\<lparr>ground_truth_m := dlit 26 1,
              error_message := ''Image file not found: missing.png''\<rparr>)"
    by (simp add: run_pipeline_def missing_file_external_def const_external_def)
  from run run_pipeline_ground_truth [OF run] show ?thesis by (rule conjI)
qed

lemmas double_eval = dlit_def round_double_def round_scaled_def Let_def bitlen.simps dzero_def
  dsub_def RADIUS_OF_EARTH_def isqrt.simps

lemma try_block_success:
  "try_block X p cam gt r = Inr r' \<Longrightarrow> success r' \<Longrightarrow> \<not> success r \<Longrightarrow>
     error_message r' = error_message r \<and>
     error_m r' = dabs (dsub (distance_m r') gt) \<and>
     error_percent r' = dmul (ddiv (error_m r') gt) (dlit 100 1)"
  by (auto simp: try_block_def Let_def
      split: option.splits sum.splits if_splits PositionVector.splits)

lemma try_block_failure:
  "try_block X p cam gt r = Inr r' \<Longrightarrow> \<not> success r' \<Longrightarrow>
     error_message r' \<noteq> [] \<and> error_m r' = error_m r \<and> error_percent r' = error_percent r"
  by (auto simp: try_block_def Let_def
      split: option.splits sum.splits if_splits PositionVector.splits)

lemma try_block_thrown:
  "try_block X p cam gt r = Inl (e, r') \<Longrightarrow>
     success r' = success r \<and> error_message r' = error_message r \<and>
     error_m r' = error_m r \<and> error_percent r' = error_percent r"
  by (auto simp: try_block_def Let_def
      split: option.splits sum.splits if_splits PositionVector.splits)

lemma external_throws_try_block:
  "external_throws X p cam e \<longleftrightarrow>
     fopen_rb X (c_str p) \<and> (\<exists>r'. try_block X p cam gt r = Inl (e, r'))"
  by (auto simp: external_throws_def try_block_def Let_def
      split: option.splits sum.splits if_splits PositionVector.splits)

lemma run_pipeline_cases:
  assumes "run_pipeline X p cam gt = Inr r"
  obtains
    (missing) "\<not> fopen_rb X (c_str p)"
      "r = RunResult_init\<lparr>ground_truth_m := gt, error_message := ''Image file not found: '' @ p\<rparr>"
  | (returned) "fopen_rb X (c_str p)"
      "try_block X p cam gt (RunResult_init\<lparr>ground_truth_m := gt\<rparr>) = Inr r"
  | (caught) msg r' where "fopen_rb X (c_str p)"
      "try_block X p cam gt (RunResult_init\<lparr>ground_truth_m := gt\<rparr>) = Inl (StdException msg, r')"
      "r = r'\<lparr>error_message := msg\<rparr>"
  using assms
  by (auto simp: run_pipeline_def Let_def split: if_splits sum.splits prod.splits thrown.splits)

lemma run_pipeline_propagates:
  "run_pipeline X p cam gt = Inl e \<longleftrightarrow> e = OtherThrown \<and> external_throws X p cam OtherThrown"
  unfolding external_throws_try_block [where gt = gt and r = "RunResult_init\<lparr>ground_truth_m := gt\<rparr>"]
  by (auto simp: run_pipeline_def Let_def split: if_splits sum.splits prod.splits thrown.splits)


subsection \<open>Arithmetic of the sample run\<close>

lemma dlit_100: "dlit 100 1 = Fin False 7036874417766400 (- 46)"
  by (simp add: double_eval cong: let_weak_cong)

lemma sample_squares:
  "dadd (dadd (dmul (dlit 3 1) (dlit 3 1)) (dmul (dlit 4 1) (dlit 4 1)))
     (dmul (dlit 12 1) (dlit 12 1)) = dlit 169 1"
  by (simp add: double_eval cong: let_weak_cong)

lemma sample_sqrt: "dsqrt (dlit 169 1) = dlit 13 1"
  by (simp add: double_eval cong: let_weak_cong)

lemma sample_altitude: "dsub (dlit 13 1) RADIUS_OF_EARTH = dneg (dlit 6378124 1)"
  by (simp add: double_eval cong: let_weak_cong)

lemma sample_error: "dabs (dsub (dlit 13 1) (dlit 26 1)) = dlit 13 1"
  by (simp add: double_eval cong: let_weak_cong)

lemma sample_percent: "dmul (ddiv (dlit 13 1) (dlit 26 1)) (dlit 100 1) = dlit 50 1"
  by (simp add: double_eval cong: let_weak_cong)

lemma working_run:
  "run_pipeline working_external ''earth.png'' sample_camera (dlit 26 1) = Inr working_result"
  by (simp add: run_pipeline_def try_block_def working_external_def const_external_def
      working_result_def RunResult_init_def sample_image_def
      sample_squares sample_sqrt sample_altitude sample_error sample_percent
      del: One_nat_def)

lemma missing_run:
  "run_pipeline missing_file_external p cam gt =
     Inr (RunResult_init\<lparr>ground_truth_m := gt, error_message := ''Image file not found: '' @ p\<rparr>)"
  by (simp add: run_pipeline_def missing_file_external_def const_external_def)

lemma throwing_run_std:
  "run_pipeline (throwing_external (StdException msg)) p cam gt =
     Inr (RunResult_init\<lparr>ground_truth_m := gt, error_message := msg\<rparr>)"
  by (simp add: run_pipeline_def try_block_def throwing_external_def const_external_def)

lemma round_scaled_zero: "round_scaled s 0 d e = Fin s 0 (- 1074)"
  by (simp add: round_scaled_def round_double_def)

lemma zero_percent:
  "deq dzero (dmul (ddiv dzero g) (dlit 100 1)) \<longleftrightarrow> g \<noteq> NaN \<and> \<not> is_dzero g"
  by (cases g) (simp_all add: dzero_def dlit_100 round_scaled_zero del: One_nat_def)


lemma no_edges_run:
  "run_pipeline no_edges_external p cam gt =
     Inr (RunResult_init\<lparr>ground_truth_m := gt, error_message := ''No edges detected''\<rparr>)"
  by (simp add: run_pipeline_def try_block_def no_edges_external_def const_external_def
      RunResult_init_def)

lemma undecodable_run:
  "run_pipeline undecodable_external p cam gt =
     Inr (RunResult_init\<lparr>ground_truth_m := gt, error_message := ''Could not load image: '' @ p\<rparr>)"
  by (simp add: run_pipeline_def try_block_def undecodable_external_def const_external_def)

subsection \<open>The failure paths\<close>

text \<open>
  C5. When no file exists at \<open>image_path\<close> (the probe \<open>fopen\<close> returns \<open>NULL\<close>),
  \<open>run_pipeline\<close> returns a record with \<open>success = false\<close> whose message is
  \<open>Image file not found: \<close> followed by the path, which mentions \<open>not found\<close>.
\<close>

theorem run_pipeline_file_not_found:
  assumes "\<not> fopen_rb X (c_str image_path)"
  shows "\<exists>r. run_pipeline X image_path camera gt = Inr r \<and> \<not> success r
           \<and> error_message r = ''Image file not found: '' @ image_path
           \<and> sublist ''not found'' (error_message r)"
proof -
  let ?r = "RunResult_init\<lparr>ground_truth_m := gt,
              error_message := ''Image file not found: '' @ image_path\<rparr>"
  have run: "run_pipeline X image_path camera gt = Inr ?r"
    using assms by (simp add: run_pipeline_def)
  have "sublist ''not found'' (''Image file '' @ ''not found'' @ ('': '' @ image_path))"
    by (rule sublist_appendI)
  then have "sublist ''not found'' (error_message ?r)"
    by simp
  with run show ?thesis by (simp add: RunResult_init_def)
qed

theorem run_pipeline_file_not_found_witness:
  "\<not> fopen_rb missing_file_external (c_str ''missing.png'')
   \<and> run_pipeline missing_file_external ''missing.png'' sample_camera (dlit 26 1)
       = Inr (RunResult_init\<lparr>ground_truth_m := dlit 26 1,
                error_message := ''Image file not found: missing.png''\<rparr>)
   \<and> sublist ''not found'' ''Image file not found: missing.png''"
proof -
  have probe: "\<not> fopen_rb missing_file_external (c_str ''missing.png'')"
    by (simp add: missing_file_external_def const_external_def)
  from run_pipeline_file_not_found [OF probe, of sample_camera "dlit 26 1"]
  obtain r where "run_pipeline missing_file_external ''missing.png'' sample_camera (dlit 26 1) = Inr r"
    and "error_message r = ''Image file not found: '' @ ''missing.png''"
    and "sublist ''not found'' (error_message r)"
    by blast
  with probe show ?thesis by (simp add: missing_run)
qed

text \<open>
  C6. When the file exists (the probe succeeds) and the decoder \<open>stbi_load\<close> cannot
  parse it (it returns the null pointer), \<open>run_pipeline\<close> returns a record with
  \<open>success = false\<close> and the message \<open>Could not load image: \<close> followed by the path.
\<close>

theorem run_pipeline_decode_failure:
  assumes "fopen_rb X (c_str image_path)" and "stbi_load X (c_str image_path) = None"
  shows "\<exists>r. run_pipeline X image_path camera gt = Inr r \<and> \<not> success r
           \<and> error_message r = ''Could not load image: '' @ image_path"
  using assms by (simp add: run_pipeline_def try_block_def RunResult_init_def)

theorem run_pipeline_decode_failure_witness:
  "fopen_rb undecodable_external (c_str ''noise.bin'')
   \<and> stbi_load undecodable_external (c_str ''noise.bin'') = None
   \<and> run_pipeline undecodable_external ''noise.bin'' sample_camera (dlit 26 1)
       = Inr (RunResult_init\<lparr>ground_truth_m := dlit 26 1,
                error_message := ''Could not load image: noise.bin''\<rparr>)"
proof -
  have probe: "fopen_rb undecodable_external (c_str ''noise.bin'')"
    and load: "stbi_load undecodable_external (c_str ''noise.bin'') = None"
    by (simp_all add: undecodable_external_def const_external_def)
  from run_pipeline_decode_failure [OF probe load, of sample_camera "dlit 26 1"]
  obtain r where "run_pipeline undecodable_external ''noise.bin'' sample_camera (dlit 26 1) = Inr r"
    by blast
  with probe load show ?thesis by (simp add: undecodable_run)
qed

text \<open>
  C7. When the image is decoded and the edge detector returns no edge point,
  \<open>run_pipeline\<close> returns a record with \<open>success = false\<close>, \<open>num_edges = 0\<close> and the
  message \<open>No edges detected\<close>, exactly.
\<close>

theorem run_pipeline_no_edges:
  assumes "fopen_rb X (c_str image_path)"
    and "stbi_load X (c_str image_path) = Some img"
    and "SimpleEdgeDetectionAlgorithm_Run X 10 1 0 img = Inr []"
  shows "\<exists>r. run_pipeline X image_path camera gt = Inr r \<and> \<not> success r
           \<and> num_edges r = 0 \<and> error_message r = ''No edges detected''"
  using assms by (simp add: run_pipeline_def try_block_def RunResult_init_def)

theorem run_pipeline_no_edges_witness:
  "fopen_rb no_edges_external (c_str ''black.png'')
   \<and> stbi_load no_edges_external (c_str ''black.png'') = Some sample_image
   \<and> SimpleEdgeDetectionAlgorithm_Run no_edges_external 10 1 0 sample_image = Inr []
   \<and> run_pipeline no_edges_external ''black.png'' sample_camera (dlit 26 1)
       = Inr (RunResult_init\<lparr>ground_truth_m := dlit 26 1,
                error_message := ''No edges detected''\<rparr>)
   \<and> num_edges (RunResult_init\<lparr>ground_truth_m := dlit 26 1,
                error_message := ''No edges detected''\<rparr>) = 0"
proof -
  have probe: "fopen_rb no_edges_external (c_str ''black.png'')"
    and load: "stbi_load no_edges_external (c_str ''black.png'') = Some sample_image"
    and edges: "SimpleEdgeDetectionAlgorithm_Run no_edges_external 10 1 0 sample_image = Inr []"
    by (simp_all add: no_edges_external_def const_external_def)
  from run_pipeline_no_edges [OF probe load edges, of sample_camera "dlit 26 1"]
  obtain r where "run_pipeline no_edges_external ''black.png'' sample_camera (dlit 26 1) = Inr r"
    and "num_edges r = 0"
    by blast
  with probe load edges show ?thesis by (simp add: no_edges_run)
qed

subsection \<open>The success path and the error figures\<close>

text \<open>
  C4. When \<open>run_pipeline\<close> returns with \<open>success = true\<close>, the field \<open>error_percent\<close>
  is the double that \<open>(|distance_m - ground_truth_m| / ground_truth_m) * 100\<close> gives
  on the returned fields \<open>distance_m\<close> and \<open>ground_truth_m\<close>, each operation rounded
  as the code rounds it. The equality is identity of doubles.
\<close>

theorem run_pipeline_error_percent:
  assumes "run_pipeline X image_path camera gt = Inr r" and "success r"
  shows "error_percent r =
           dmul (ddiv (dabs (dsub (distance_m r) (ground_truth_m r))) (ground_truth_m r))
             (dlit 100 1)"
  using assms(1)
proof (cases rule: run_pipeline_cases)
  case missing
  with assms(2) show ?thesis by (simp add: RunResult_init_def)
next
  case returned
  have "\<not> success (RunResult_init\<lparr>ground_truth_m := gt\<rparr>)"
    by (simp add: RunResult_init_def)
  from try_block_success [OF returned(2) assms(2) this]
    try_block_ground_truth [OF returned(2)]
  show ?thesis by simp
next
  case (caught msg r')
  from try_block_thrown [OF caught(2)] caught(3) assms(2)
  show ?thesis by (simp add: RunResult_init_def)
qed

theorem run_pipeline_error_percent_witness:
  "run_pipeline working_external ''earth.png'' sample_camera (dlit 26 1) = Inr working_result
   \<and> success working_result
   \<and> distance_m working_result = dlit 13 1
   \<and> ground_truth_m working_result = dlit 26 1
   \<and> error_percent working_result = dlit 50 1
   \<and> dmul (ddiv (dabs (dsub (dlit 13 1) (dlit 26 1))) (dlit 26 1)) (dlit 100 1) = dlit 50 1"
proof -
  have ok: "success working_result"
    by (simp add: working_result_def)
  from run_pipeline_error_percent [OF working_run ok]
  have "dmul (ddiv (dabs (dsub (dlit 13 1) (dlit 26 1))) (dlit 26 1)) (dlit 100 1) = dlit 50 1"
    by (simp add: working_result_def del: One_nat_def)
  with working_run ok show ?thesis
    by (simp add: working_result_def del: One_nat_def)
qed

text \<open>
  C2, as the code has it. On a success \<open>error_percent\<close> is the double
  \<open>error_m / ground_truth_m * 100\<close>. On a failure \<open>error_m\<close> and \<open>error_percent\<close> keep
  their initial value \<open>0.0\<close>, and \<open>error_percent == error_m / ground_truth_m * 100\<close>
  holds exactly when \<open>ground_truth_m\<close> is neither a zero nor a NaN.
\<close>

theorem run_pipeline_percent_invariant:
  assumes "run_pipeline X image_path camera gt = Inr r"
  shows "(success r \<longrightarrow>
            error_percent r = dmul (ddiv (error_m r) (ground_truth_m r)) (dlit 100 1))
         \<and> (\<not> success r \<longrightarrow>
              error_m r = dzero \<and> error_percent r = dzero
              \<and> (deq (error_percent r)
                       (dmul (ddiv (error_m r) (ground_truth_m r)) (dlit 100 1))
                   \<longleftrightarrow> ground_truth_m r \<noteq> NaN \<and> \<not> is_dzero (ground_truth_m r)))"
proof -
  let ?r0 = "RunResult_init\<lparr>ground_truth_m := gt\<rparr>"
  have init: "\<not> success ?r0" "error_m ?r0 = dzero" "error_percent ?r0 = dzero"
    by (simp_all add: RunResult_init_def)
  have fail: "error_m r = dzero \<and> error_percent r = dzero" if "\<not> success r"
    using assms
  proof (cases rule: run_pipeline_cases)
    case missing
    then show ?thesis by (simp add: RunResult_init_def)
  next
    case returned
    from try_block_failure [OF returned(2) that] init show ?thesis by simp
  next
    case (caught msg r')
    from try_block_thrown [OF caught(2)] caught(3) init show ?thesis by simp
  qed
  have succ: "error_percent r = dmul (ddiv (error_m r) (ground_truth_m r)) (dlit 100 1)"
    if "success r"
    using assms
  proof (cases rule: run_pipeline_cases)
    case missing
    with that show ?thesis by (simp add: RunResult_init_def)
  next
    case returned
    from try_block_success [OF returned(2) that init(1)]
      try_block_ground_truth [OF returned(2)]
    show ?thesis by simp
  next
    case (caught msg r')
    from try_block_thrown [OF caught(2)] caught(3) that init show ?thesis by simp
  qed
  from fail succ zero_percent [of "ground_truth_m r"] show ?thesis
    by auto
qed

theorem run_pipeline_percent_invariant_witness:
  "run_pipeline working_external ''earth.png'' sample_camera (dlit 26 1) = Inr working_result
   \<and> success working_result
   \<and> error_percent working_result = dlit 50 1
   \<and> dmul (ddiv (error_m working_result) (ground_truth_m working_result)) (dlit 100 1)
       = dlit 50 1"
proof -
  have ok: "success working_result"
    by (simp add: working_result_def)
  from run_pipeline_percent_invariant [OF working_run] ok
  have "error_percent working_result
          = dmul (ddiv (error_m working_result) (ground_truth_m working_result)) (dlit 100 1)"
    by blast
  moreover have "error_percent working_result = dlit 50 1"
    by (simp add: working_result_def)
  ultimately show ?thesis using working_run ok by simp
qed

text \<open>
  C2 fails as stated: a missing file with \<open>ground_truth_m = 0.0\<close> gives a record
  with \<open>error_m = 0.0\<close> and \<open>error_percent = 0.0\<close>, while \<open>0.0 / 0.0 * 100\<close> is NaN,
  which is not \<open>0.0\<close> and does not compare equal to it.
\<close>

theorem run_pipeline_percent_invariant_counterexample:
  "run_pipeline missing_file_external ''missing.png'' sample_camera dzero
     = Inr (RunResult_init\<lparr>ground_truth_m := dzero,
              error_message := ''Image file not found: missing.png''\<rparr>)
   \<and> error_percent (RunResult_init\<lparr>ground_truth_m := dzero,
              error_message := ''Image file not found: missing.png''\<rparr>)
       \<noteq> dmul (ddiv (error_m (RunResult_init\<lparr>ground_truth_m := dzero,
                            error_message := ''Image file not found: missing.png''\<rparr>))
                    (ground_truth_m (RunResult_init\<lparr>ground_truth_m := dzero,
                            error_message := ''Image file not found: missing.png''\<rparr>)))
               (dlit 100 1)
   \<and> \<not> deq (error_percent (RunResult_init\<lparr>ground_truth_m := dzero,
                 error_message := ''Image file not found: missing.png''\<rparr>))
            (dmul (ddiv (error_m (RunResult_init\<lparr>ground_truth_m := dzero,
                            error_message := ''Image file not found: missing.png''\<rparr>))
                    (ground_truth_m (RunResult_init\<lparr>ground_truth_m := dzero,
                            error_message := ''Image file not found: missing.png''\<rparr>)))
               (dlit 100 1))"
  by (simp add: missing_run RunResult_init_def dzero_def)

subsection \<open>Exceptions\<close>

text \<open>
  C3, as the code has it. The handler is \<open>catch (const std::exception& e)\<close>: when an
  external algorithm throws an object derived from \<open>std::exception\<close>, \<open>run_pipeline\<close>
  returns a record with \<open>success = false\<close> whose message is \<open>e.what()\<close>; an exception
  leaves \<open>run_pipeline\<close> exactly when an external algorithm throws an object of
  another type, which the handler does not match.
\<close>

theorem run_pipeline_catches_std_exception:
  "(external_throws X image_path camera (StdException msg) \<longrightarrow>
      (\<exists>r. run_pipeline X image_path camera gt = Inr r \<and> \<not> success r
            \<and> error_message r = msg))
   \<and> (run_pipeline X image_path camera gt = Inl e \<longleftrightarrow>
         e = OtherThrown \<and> external_throws X image_path camera OtherThrown)"
proof (intro conjI impI)
  let ?r0 = "RunResult_init\<lparr>ground_truth_m := gt\<rparr>"
  assume "external_throws X image_path camera (StdException msg)"
  then obtain r' where probe: "fopen_rb X (c_str image_path)"
    and thrown: "try_block X image_path camera gt ?r0 = Inl (StdException msg, r')"
    unfolding external_throws_try_block [where gt = gt and r = ?r0] by blast
  from probe thrown
  have "run_pipeline X image_path camera gt = Inr (r'\<lparr>error_message := msg\<rparr>)"
    by (simp add: run_pipeline_def)
  moreover from try_block_thrown [OF thrown] have "\<not> success r'"
    by (simp add: RunResult_init_def)
  ultimately show "\<exists>r. run_pipeline X image_path camera gt = Inr r \<and> \<not> success r
            \<and> error_message r = msg"
    by simp
next
  show "run_pipeline X image_path camera gt = Inl e \<longleftrightarrow>
          e = OtherThrown \<and> external_throws X image_path camera OtherThrown"
    by (rule run_pipeline_propagates)
qed

theorem run_pipeline_catches_std_exception_witness:
  "external_throws (throwing_external (StdException ''bad image'')) ''earth.png'' sample_camera
     (StdException ''bad image'')
   \<and> run_pipeline (throwing_external (StdException ''bad image'')) ''earth.png'' sample_camera
       (dlit 26 1)
       = Inr (RunResult_init\<lparr>ground_truth_m := dlit 26 1, error_message := ''bad image''\<rparr>)
   \<and> \<not> success (RunResult_init\<lparr>ground_truth_m := dlit 26 1, error_message := ''bad image''\<rparr>)"
proof -
  have thrown: "external_throws (throwing_external (StdException ''bad image'')) ''earth.png''
      sample_camera (StdException ''bad image'')"
    by (simp add: external_throws_def throwing_external_def const_external_def)
  from run_pipeline_catches_std_exception
    [of "throwing_external (StdException ''bad image'')" "''earth.png''" sample_camera
        "''bad image''" "dlit 26 1"] thrown
  obtain r where "run_pipeline (throwing_external (StdException ''bad image'')) ''earth.png''
      sample_camera (dlit 26 1) = Inr r" and "\<not> success r"
    by blast
  with thrown show ?thesis by (simp add: throwing_run_std)
qed

text \<open>
  C3 fails as stated: when the edge detector throws an object that is not derived
  from \<open>std::exception\<close>, the exception leaves \<open>run_pipeline\<close>.
\<close>

theorem run_pipeline_propagates_counterexample:
  "run_pipeline (throwing_external OtherThrown) ''earth.png'' sample_camera (dlit 26 1)
     = Inl OtherThrown"
  by (simp add: run_pipeline_def try_block_def throwing_external_def const_external_def)

subsection \<open>The success flag and the message\<close>

text \<open>
  C9, as the code has it. In a returned record \<open>success = true\<close> implies an empty
  \<open>error_message\<close>; \<open>success = false\<close> implies a non-empty one, except when the
  failure is a caught \<open>std::exception\<close> whose \<open>what()\<close> is the empty string.
\<close>

theorem run_pipeline_success_message:
  assumes "run_pipeline X image_path camera gt = Inr r"
  shows "(success r \<longrightarrow> error_message r = [])
         \<and> (\<not> success r \<longrightarrow>
              error_message r \<noteq> [] \<or> external_throws X image_path camera (StdException []))"
  using assms
proof (cases rule: run_pipeline_cases)
  case missing
  then show ?thesis by (simp add: RunResult_init_def)
next
  case returned
  have init: "\<not> success (RunResult_init\<lparr>ground_truth_m := gt\<rparr>)"
    "error_message (RunResult_init\<lparr>ground_truth_m := gt\<rparr>) = []"
    by (simp_all add: RunResult_init_def)
  from try_block_success [OF returned(2) _ init(1)] try_block_failure [OF returned(2)] init(2)
  show ?thesis by auto
next
  case (caught msg r')
  from try_block_thrown [OF caught(2)] have "\<not> success r'"
    by (simp add: RunResult_init_def)
  moreover from caught(1,2) have "external_throws X image_path camera (StdException msg)"
    unfolding external_throws_try_block
      [where gt = gt and r = "RunResult_init\<lparr>ground_truth_m := gt\<rparr>"]
    by blast
  ultimately show ?thesis using caught(3) by auto
qed

theorem run_pipeline_success_message_witness:
  "run_pipeline working_external ''earth.png'' sample_camera (dlit 26 1) = Inr working_result
   \<and> success working_result \<and> error_message working_result = []"
proof -
  have ok: "success working_result"
    by (simp add: working_result_def)
  from run_pipeline_success_message [OF working_run] ok
  have "error_message working_result = []"
    by blast
  with working_run ok show ?thesis by simp
qed

text \<open>
  C9 fails as stated: when the edge detector throws a \<open>std::exception\<close> whose
  \<open>what()\<close> is empty, the returned record has \<open>success = false\<close> and an empty
  \<open>error_message\<close>.
\<close>

theorem run_pipeline_success_message_counterexample:
  "run_pipeline (throwing_external (StdException [])) ''earth.png'' sample_camera (dlit 26 1)
     = Inr (RunResult_init\<lparr>ground_truth_m := dlit 26 1\<rparr>)
   \<and> \<not> (success (RunResult_init\<lparr>ground_truth_m := dlit 26 1\<rparr>)
          \<longleftrightarrow> error_message (RunResult_init\<lparr>ground_truth_m := dlit 26 1\<rparr>) = [])"
  by (simp add: run_pipeline_def try_block_def throwing_external_def const_external_def
      RunResult_init_def)

section \<open>Properties of the output functions\<close>

text \<open>
  C8. \<open>print_result\<close> and \<open>write_result_json\<close> leave the record they are given
  unchanged, in every field: the object their parameter \<open>r\<close> refers to is the same
  after the call, whether \<open>write_result_json\<close> returns or throws.
\<close>

theorem output_functions_keep_result:
  "arg_r (print_result L s) = arg_r s \<and> arg_r (snd (write_result_json L path s)) = arg_r s"
  by (simp add: print_result_def write_result_json_def)


lemmas json_fuel_numeral =
  json_value.simps(2) [where k = "pred_numeral n" for n, folded numeral_eq_Suc]
  json_elements.simps(2) [where k = "pred_numeral n" for n, folded numeral_eq_Suc]
  json_members.simps(2) [where k = "pred_numeral n" for n, folded numeral_eq_Suc]

lemmas json_eval = json_parse_def skip_ws_def is_ws_def is_digit_def is_hex_def json_number_def
  json_int_def json_frac_def json_exp_def Let_def json_fuel_numeral

subsection \<open>The parser decides\<close>

lemma json_parse_array_example:
  \<open>json_parse ''[-12.5e+3, true, 0, -0.5E7, 1e-2,10]''
     = Parsed (JArray [JNumber ''-12.5e+3'', JBool True, JNumber ''0'', JNumber ''-0.5E7'',
                       JNumber ''1e-2'', JNumber ''10'']) []\<close>
  by (simp add: json_eval cong: let_weak_cong)

lemma json_parse_object_example:
  \<open>json_parse '' {"a" : [ ] , "b":{"c":null}} ''
     = Parsed (JObject [(''a'', JArray []), (''b'', JObject [(''c'', JNull)])]) []\<close>
  by (simp add: json_eval cong: let_weak_cong)

lemma json_parse_rejects:
  \<open>json_parse ''01'' = Syntax_Error\<close>
  \<open>json_parse ''1.'' = Syntax_Error\<close>
  \<open>json_parse ''nan'' = Syntax_Error\<close>
  \<open>json_parse ''inf'' = Syntax_Error\<close>
  \<open>json_parse ''[[[[[['' = Syntax_Error\<close>
  by (simp_all add: json_eval cong: let_weak_cong)

lemma skip_ws_length: "length (skip_ws s) \<le> length s"
  by (simp add: skip_ws_def length_dropWhile_le)

lemma json_string_shorter: "json_string s = Some (t, rest) \<Longrightarrow> length rest < length s"
proof (induction s arbitrary: t rest rule: json_string.induct)
  case 1
  then show ?case by simp
next
  case (2 c cs)
  then show ?case
    by (fastforce split: if_splits list.splits)
qed

lemma json_int_shorter: "json_int s = Some (t, rest) \<Longrightarrow> length rest < length s"
  by (auto simp: json_int_def less_Suc_eq_le length_dropWhile_le split: list.splits if_splits)

lemma json_frac_shorter: "json_frac s = Some (t, rest) \<Longrightarrow> length rest \<le> length s"
  by (auto simp: json_frac_def le_SucI length_dropWhile_le split: list.splits if_splits)

lemma json_exp_shorter: "json_exp s = Some (t, rest) \<Longrightarrow> length rest \<le> length s"
proof -
  have "length (dropWhile is_digit xs) \<le> Suc (length xs)"
    and "length (dropWhile is_digit xs) \<le> Suc (Suc (length xs))" for xs :: string
    using length_dropWhile_le [of is_digit xs] by simp_all
  then show "json_exp s = Some (t, rest) \<Longrightarrow> length rest \<le> length s"
    by (auto simp: json_exp_def Let_def split: list.splits if_splits)
qed

lemma json_number_shorter: "json_number s = Some (t, rest) \<Longrightarrow> length rest < length s"
proof -
  assume "json_number s = Some (t, rest)"
  then obtain n ip s2 fr s3 ex where "json_int (drop n s) = Some (ip, s2)"
    and "json_frac s2 = Some (fr, s3)" and "json_exp s3 = Some (ex, rest)"
    by (auto simp: json_number_def Let_def split: option.splits)
  from json_int_shorter [OF this(1)] json_frac_shorter [OF this(2)] json_exp_shorter [OF this(3)]
  show ?thesis by simp
qed


lemma skip_ws_Cons: "skip_ws cs = d # ds \<Longrightarrow> length ds < length cs"
  using skip_ws_length [of cs] by simp

lemma json_fuel:
  "(2 * length s < k \<longrightarrow>
      json_value k s \<noteq> Out_Of_Fuel
      \<and> (\<forall>v rest. json_value k s = Parsed v rest \<longrightarrow> length rest < length s))"
  "(2 * length s + 1 < k \<longrightarrow>
      json_elements k s \<noteq> Out_Of_Fuel
      \<and> (\<forall>vs rest. json_elements k s = Parsed vs rest \<longrightarrow> length rest < length s))"
  "(2 * length s + 1 < k \<longrightarrow>
      json_members k s \<noteq> Out_Of_Fuel
      \<and> (\<forall>ms rest. json_members k s = Parsed ms rest \<longrightarrow> length rest < length s))"
proof (induction k s and k s and k s rule: json_value_json_elements_json_members.induct)
  case (1 s)
  then show ?case by simp
next
  case (2 k s)
  show ?case
  proof (intro impI)
    assume fuel: "2 * length s < Suc k"
    show "json_value (Suc k) s \<noteq> Out_Of_Fuel
      \<and> (\<forall>v rest. json_value (Suc k) s = Parsed v rest \<longrightarrow> length rest < length s)"
    proof (cases s)
      case Nil
      then show ?thesis by simp
    next
      case (Cons c cs)
      show ?thesis
      proof (cases "c = CHR ''{'' \<or> c = CHR ''[''")
        case False
        with Cons show ?thesis
          by (auto simp del: take_Cons_numeral drop_Cons_numeral
              split: option.splits dest: json_string_shorter json_number_shorter)
      next
        case True
        show ?thesis
        proof (cases "skip_ws cs")
          case Nil
          with True Cons show ?thesis by auto
        next
          case (Cons d ds)
          from skip_ws_Cons [OF Cons] fuel \<open>s = c # cs\<close>
          have len: "length ds < length cs" "2 * length (d # ds) + 1 < k" by simp_all
          from True show ?thesis
          proof
            assume c: "c = CHR ''{''"
            show ?thesis
            proof (cases "d = CHR ''}''")
              case True
              with c Cons \<open>s = c # cs\<close> len show ?thesis by simp
            next
              case False
              from "2.IH"(1) [OF \<open>s = c # cs\<close> c Cons False] len(2)
              have nf: "json_members k (d # ds) \<noteq> Out_Of_Fuel"
                and sh: "\<And>ms rest. json_members k (d # ds) = Parsed ms rest \<Longrightarrow>
                       length rest < length (d # ds)"
                by blast+
              show ?thesis
              proof (cases "json_members k (d # ds)")
                case (Parsed ms rest)
                from sh [OF Parsed] len(1) Parsed c Cons \<open>s = c # cs\<close> False
                show ?thesis by simp
              next
                case Syntax_Error
                with c Cons \<open>s = c # cs\<close> False show ?thesis by simp
              next
                case Out_Of_Fuel
                with nf show ?thesis by simp
              qed
            qed
          next
            assume c: "c = CHR ''[''"
            then have nb: "c \<noteq> CHR ''{''" by simp
            show ?thesis
            proof (cases "d = CHR '']''")
              case True
              with c Cons \<open>s = c # cs\<close> len show ?thesis by simp
            next
              case False
              from "2.IH"(2) [OF \<open>s = c # cs\<close> nb c Cons False] len(2)
              have nf: "json_elements k (d # ds) \<noteq> Out_Of_Fuel"
                and sh: "\<And>vs rest. json_elements k (d # ds) = Parsed vs rest \<Longrightarrow>
                       length rest < length (d # ds)"
                by blast+
              show ?thesis
              proof (cases "json_elements k (d # ds)")
                case (Parsed vs rest)
                from sh [OF Parsed] len(1) Parsed c Cons \<open>s = c # cs\<close> False
                show ?thesis by simp
              next
                case Syntax_Error
                with c Cons \<open>s = c # cs\<close> False show ?thesis by simp
              next
                case Out_Of_Fuel
                with nf show ?thesis by simp
              qed
            qed
          qed
        qed
      qed
    qed
  qed
next
  case (3 s)
  then show ?case by simp
next
  case (4 k s)
  show ?case
  proof (intro impI)
    assume fuel: "2 * length s + 1 < Suc k"
    then have "2 * length s < k" by simp
    with "4.IH"(1)
    have nf: "json_value k s \<noteq> Out_Of_Fuel"
      and sh: "\<And>v rest. json_value k s = Parsed v rest \<Longrightarrow> length rest < length s"
      by blast+
    show "json_elements (Suc k) s \<noteq> Out_Of_Fuel
      \<and> (\<forall>vs rest. json_elements (Suc k) s = Parsed vs rest \<longrightarrow> length rest < length s)"
    proof (cases "json_value k s")
      case Syntax_Error
      then show ?thesis by simp
    next
      case Out_Of_Fuel
      with nf show ?thesis by simp
    next
      case (Parsed v rest)
      note v = this
      show ?thesis
      proof (cases "skip_ws rest")
        case Nil
        with v show ?thesis by simp
      next
        case (Cons d ds)
        from skip_ws_Cons [OF Cons] sh [OF v] have len: "length ds < length s" by simp
        show ?thesis
        proof (cases "d = CHR '','' \<and> d \<noteq> CHR '']''")
          case False
          with v Cons len show ?thesis by auto
        next
          case True
          from skip_ws_length [of ds] skip_ws_Cons [OF Cons] sh [OF v] fuel
          have "2 * length (skip_ws ds) + 1 < k" and len': "length (skip_ws ds) < length s"
            by simp_all
          with "4.IH"(2) [OF v Cons] True
          have nf': "json_elements k (skip_ws ds) \<noteq> Out_Of_Fuel"
            and sh': "\<And>vs rest. json_elements k (skip_ws ds) = Parsed vs rest \<Longrightarrow>
                   length rest < length (skip_ws ds)"
            by blast+
          show ?thesis
          proof (cases "json_elements k (skip_ws ds)")
            case (Parsed vs rest')
            from sh' [OF Parsed] len' Parsed v Cons True show ?thesis by simp
          next
            case Syntax_Error
            with v Cons True show ?thesis by simp
          next
            case Out_Of_Fuel
            with nf' show ?thesis by simp
          qed
        qed
      qed
    qed
  qed
next
  case (5 s)
  then show ?case by simp
next
  case (6 k s)
  show ?case
  proof (intro impI)
    assume fuel: "2 * length s + 1 < Suc k"
    show "json_members (Suc k) s \<noteq> Out_Of_Fuel
      \<and> (\<forall>ms rest. json_members (Suc k) s = Parsed ms rest \<longrightarrow> length rest < length s)"
    proof (cases s)
      case Nil
      then show ?thesis by simp
    next
      case (Cons c cs)
      note s = this
      show ?thesis
      proof (cases "c = CHR 0x22")
        case False
        with s show ?thesis by simp
      next
        case True
        then have c: "\<not> c \<noteq> CHR 0x22" by simp
        show ?thesis
        proof (cases "json_string cs")
          case None
          with s True show ?thesis by simp
        next
          case (Some x2)
          obtain key rest where x2: "(key, rest) = x2" by (cases x2) simp
          with Some have str: "json_string cs = Some (key, rest)" by simp
          from json_string_shorter [OF str] s have rest: "length rest < length s" by simp
          show ?thesis
          proof (cases "skip_ws rest")
            case Nil
            with s True str show ?thesis by simp
          next
            case (Cons d ds)
            note colon = this
            from skip_ws_Cons [OF colon] rest have ds: "length ds < length s" by simp
            show ?thesis
            proof (cases "d = CHR '':''")
              case False
              with s True str colon show ?thesis by simp
            next
              case True
              then have d: "\<not> d \<noteq> CHR '':''" by simp
              from skip_ws_length [of ds] ds fuel
              have "2 * length (skip_ws ds) < k" and ws: "length (skip_ws ds) < length s"
                by simp_all
              with "6.IH"(1) [OF s c Some x2 colon d]
              have nf: "json_value k (skip_ws ds) \<noteq> Out_Of_Fuel"
                and sh: "\<And>v r. json_value k (skip_ws ds) = Parsed v r \<Longrightarrow>
                       length r < length (skip_ws ds)"
                by blast+
              show ?thesis
              proof (cases "json_value k (skip_ws ds)")
                case Syntax_Error
                with s \<open>c = CHR 0x22\<close> str colon True show ?thesis by simp
              next
                case Out_Of_Fuel
                with nf show ?thesis by simp
              next
                case (Parsed v rest')
                note v = this
                from sh [OF v] ws have rest': "length rest' < length s" by simp
                show ?thesis
                proof (cases "skip_ws rest'")
                  case Nil
                  with s \<open>c = CHR 0x22\<close> str colon True v show ?thesis by simp
                next
                  case (Cons d' ds')
                  note sep = this
                  from skip_ws_Cons [OF sep] sh [OF v] ws
                  have ds': "Suc (length ds') < length s" by simp
                  show ?thesis
                  proof (cases "d' = CHR '','' \<and> d' \<noteq> CHR ''}''")
                    case False
                    with s \<open>c = CHR 0x22\<close> str colon True v sep ds' show ?thesis by auto
                  next
                    case True
                    from skip_ws_length [of ds'] ds' fuel
                    have "2 * length (skip_ws ds') + 1 < k"
                      and ws': "length (skip_ws ds') < length s"
                      by simp_all
                    with "6.IH"(2) [OF s c Some x2 colon d v sep] True
                    have nf': "json_members k (skip_ws ds') \<noteq> Out_Of_Fuel"
                      and sh': "\<And>ms r. json_members k (skip_ws ds') = Parsed ms r \<Longrightarrow>
                             length r < length (skip_ws ds')"
                      by blast+
                    show ?thesis
                    proof (cases "json_members k (skip_ws ds')")
                      case (Parsed ms r)
                      from sh' [OF Parsed] ws' Parsed s \<open>c = CHR 0x22\<close> str colon
                        \<open>d = CHR '':''\<close> v sep True
                      show ?thesis by simp
                    next
                      case Syntax_Error
                      with s \<open>c = CHR 0x22\<close> str colon \<open>d = CHR '':''\<close> v sep True
                      show ?thesis by simp
                    next
                      case Out_Of_Fuel
                      with nf' show ?thesis by simp
                    qed
                  qed
                qed
              qed
            qed
          qed
        qed
      qed
    qed
  qed
qed


lemma json_parse_decides: "json_parse s \<noteq> Out_Of_Fuel"
proof -
  from skip_ws_length [of s] have "2 * length (skip_ws s) < Suc (2 * length s)"
    by simp
  with json_fuel(1) [of "skip_ws s" "Suc (2 * length s)"]
  have "json_value (Suc (2 * length s)) (skip_ws s) \<noteq> Out_Of_Fuel"
    by blast
  then show ?thesis
    by (cases "json_value (Suc (2 * length s)) (skip_ws s)") (simp_all add: json_parse_def)
qed

subsection \<open>The text of write_result_json\<close>

text \<open>
  On a failure whose message has only plain characters the text written is JSON: an
  object with the two members \<open>success\<close> (false) and \<open>error\<close> (the message), and no
  other.
\<close>

lemma json_string_plain:
  "list_all plain_char t \<Longrightarrow> json_string (t @ CHR 0x22 # rest) = Some (t, rest)"
  by (induction t) (simp_all add: plain_char_def)

lemma json_text_failure_plain:
  assumes "\<not> success r" and "list_all plain_char (error_message r)"
  shows "json_parse (json_text L r)
           = Parsed (JObject [(''success'', JBool False),
                              (''error'', JString (error_message r))]) []"
  using assms
  by (simp add: json_text_def json_eval json_string_plain cong: let_weak_cong)

lemma write_result_json_writes:
  "ofstream_open L (c_str path) \<Longrightarrow>
     write_result_json L path s
       = (None, s\<lparr>files := (files s)(c_str path \<mapsto> json_text L (arg_r s))\<rparr>)"
  by (simp add: write_result_json_def)

text \<open>
  On a success the text written is JSON with the seven members of the success case
  and no other, provided the stream writes every double as a JSON number; the
  \<open>int\<close> always is one. A field written as \<open>nan\<close> or \<open>inf\<close> is not.
\<close>

lemma digit_char: "(n::nat) < 10 \<Longrightarrow> is_digit (char_of (48 + n))"
  by (simp add: is_digit_def less_eq_char_def)

lemma digit_char_zero: "(n::nat) < 10 \<Longrightarrow> char_of (48 + n) = CHR ''0'' \<longleftrightarrow> n = 0"
  by (simp add: char_of_eq_iff take_bit_eq_mod)

lemma decimal_digits: "list_all is_digit (decimal n) \<and> decimal n \<noteq> []"
proof (induction n rule: decimal.induct)
  case (1 n)
  show ?case
  proof (cases "n < 10")
    case True
    then show ?thesis by (simp add: decimal.simps [of n] digit_char)
  next
    case False
    with 1 show ?thesis by (simp add: decimal.simps [of n] digit_char)
  qed
qed

lemma decimal_leading: "hd (decimal n) = CHR ''0'' \<Longrightarrow> n = 0"
proof (induction n rule: decimal.induct)
  case (1 n)
  show ?case
  proof (cases "n < 10")
    case True
    with 1(2) show ?thesis by (simp add: decimal.simps [of n] digit_char_zero)
  next
    case False
    from False 1(2) decimal_digits [of "n div 10"]
    have "hd (decimal (n div 10)) = CHR ''0''"
      by (simp add: decimal.simps [of n])
    from 1(1) [OF False this] False show ?thesis by simp
  qed
qed

lemma json_int_digits:
  assumes "list_all is_digit t" and "t \<noteq> []" and "hd t = CHR ''0'' \<longrightarrow> t = ''0''"
    and "\<not> is_digit c"
  shows "json_int (t @ c # rest) = Some (t, c # rest)"
proof (cases t)
  case Nil
  with assms(2) show ?thesis by simp
next
  case (Cons d ds)
  show ?thesis
  proof (cases "d = CHR ''0''")
    case True
    with Cons assms(3) show ?thesis by (simp add: json_int_def)
  next
    case False
    from assms(1,4) Cons have "takeWhile is_digit (ds @ c # rest) = ds"
      and "dropWhile is_digit (ds @ c # rest) = c # rest"
      by (simp_all add: list_all_iff takeWhile_append2 dropWhile_append2)
    with False Cons assms(1) show ?thesis by (simp add: json_int_def)
  qed
qed

lemma json_number_digits:
  assumes "list_all is_digit t" and "t \<noteq> []" and "hd t = CHR ''0'' \<longrightarrow> t = ''0''"
    and "c = CHR '','' \<or> c = CHR 0x0A"
  shows "json_number (t @ c # rest) = Some (t, c # rest)"
    and "json_number (CHR ''-'' # t @ c # rest) = Some (CHR ''-'' # t, c # rest)"
proof -
  from assms(4) have c: "\<not> is_digit c" "c \<noteq> CHR ''.''" "c \<noteq> CHR ''e''" "c \<noteq> CHR ''E''"
    by (auto simp: is_digit_def)
  from assms(1,2) have "hd t \<noteq> CHR ''-''"
    by (cases t) (auto simp: is_digit_def)
  with assms(2) have sg: "(case t @ c # rest of [] \<Rightarrow> [] | a # as \<Rightarrow> if a = CHR ''-'' then [a] else []) = []"
    by (cases t) auto
  from json_int_digits [OF assms(1-3) c(1)] c sg
  show "json_number (t @ c # rest) = Some (t, c # rest)"
    by (simp add: json_number_def json_frac_def json_exp_def)
  from json_int_digits [OF assms(1-3) c(1)] c
  show "json_number (CHR ''-'' # t @ c # rest) = Some (CHR ''-'' # t, c # rest)"
    by (simp add: json_number_def json_frac_def json_exp_def)
qed

lemma number_text_int: "number_text (ostream_int i)"
proof -
  have dec: "number_text (decimal n)" "number_text (CHR ''-'' # decimal n)" for n
  proof -
    from decimal_digits [of n] have d: "list_all is_digit (decimal n)" "decimal n \<noteq> []"
      by simp_all
    have z: "hd (decimal n) = CHR ''0'' \<longrightarrow> decimal n = ''0''"
      using decimal_leading [of n] by (auto simp: decimal.simps [of 0])
    from d obtain a as where as: "decimal n = a # as" and a: "is_digit a"
      by (cases "decimal n") auto
    from a have na: "a \<noteq> CHR ''{''" "a \<noteq> CHR ''[''" "a \<noteq> CHR 0x22" "a \<noteq> CHR ''t''"
      "a \<noteq> CHR ''f''" "a \<noteq> CHR ''n''"
      by (auto simp: is_digit_def)
    show "number_text (decimal n)"
      unfolding number_text_def
    proof (intro allI impI)
      fix c rest k
      assume c: "c = CHR '','' \<or> c = CHR 0x0A"
      from json_number_digits(1) [OF d z c, of rest] na
      show "json_value (Suc k) (decimal n @ c # rest) = Parsed (JNumber (decimal n)) (c # rest)"
        unfolding as by (cases as) (simp_all del: take_Cons_numeral drop_Cons_numeral add: take_Cons' )
    qed
    show "number_text (CHR ''-'' # decimal n)"
      unfolding number_text_def
    proof (intro allI impI)
      fix c rest k
      assume c: "c = CHR '','' \<or> c = CHR 0x0A"
      from json_number_digits(2) [OF d z c, of rest]
      show "json_value (Suc k) ((CHR ''-'' # decimal n) @ c # rest)
              = Parsed (JNumber (CHR ''-'' # decimal n)) (c # rest)"
        by (simp add: take_Cons')
    qed
  qed
  then show ?thesis by (simp add: ostream_int_def)
qed


lemma number_text_comma:
  "number_text t \<Longrightarrow>
     json_value (Suc k) (t @ CHR '','' # rest) = Parsed (JNumber t) (CHR '','' # rest)"
  by (simp add: number_text_def)

lemma number_text_newline:
  "number_text t \<Longrightarrow>
     json_value (Suc k) (t @ CHR 0x0A # rest) = Parsed (JNumber t) (CHR 0x0A # rest)"
  by (simp add: number_text_def)

lemma number_text_skip_ws:
  assumes "number_text t"
  shows "skip_ws (t @ rest) = t @ rest"
proof (cases t)
  case Nil
  with number_text_comma [OF assms, of 0 "[]"] show ?thesis
    by (simp add: json_number_def json_int_def is_digit_def)
next
  case (Cons c cs)
  have "\<not> is_ws c"
  proof
    assume "is_ws c"
    with number_text_comma [OF assms, of 0 "[]"] Cons show False
      by (auto simp: is_ws_def json_number_def json_int_def is_digit_def)
  qed
  with Cons show ?thesis by (simp add: skip_ws_def)
qed

lemmas json_value_Cons = json_value.simps(2) [where s = "c # cs" for c cs]

lemma json_text_success:
  assumes "success r" and "\<And>x. number_text (ostream_double L x)"
  shows "json_parse (json_text L r)
           = Parsed (JObject
               [(''success'', JBool True),
                (''num_edges'', JNumber (ostream_int (num_edges r))),
                (''distance_m'', JNumber (ostream_double L (distance_m r))),
                (''altitude_m'', JNumber (ostream_double L (altitude_m r))),
                (''ground_truth_m'', JNumber (ostream_double L (ground_truth_m r))),
                (''error_m'', JNumber (ostream_double L (error_m r))),
                (''error_percent'', JNumber (ostream_double L (error_percent r)))]) []"
proof -
  note nt = number_text_int assms(2)
  have ws: "dropWhile is_ws (t @ rest) = t @ rest" if "number_text t" for t rest
    using number_text_skip_ws [OF that, of rest] by (simp add: skip_ws_def)
  show ?thesis
    using assms(1)
    by (simp add: json_text_def json_parse_def skip_ws_def is_ws_def json_value_Cons
        number_text_comma [OF nt(1)] number_text_comma [OF nt(2)]
        number_text_newline [OF nt(2)] ws [OF nt(1)] ws [OF nt(2)]
        del: json_value.simps(2))
qed

lemma json_text_success_not_a_number:
  assumes "success r"
    and "number_text (ostream_double L (distance_m r))"
    and "number_text (ostream_double L (altitude_m r))"
    and "number_text (ostream_double L (ground_truth_m r))"
    and "number_text (ostream_double L (error_m r))"
    and "ostream_double L (error_percent r) = ''inf''
         \<or> ostream_double L (error_percent r) = ''nan''"
  shows "json_parse (json_text L r) = Syntax_Error"
proof -
  note nt = number_text_int assms(2-5)
  have ws: "dropWhile is_ws (t @ rest) = t @ rest" if "number_text t" for t rest
    using number_text_skip_ws [OF that, of rest] by (simp add: skip_ws_def)
  from assms(6) show ?thesis
  proof
    assume "ostream_double L (error_percent r) = ''inf''"
    with assms(1) show ?thesis
      by (simp add: json_text_def json_parse_def skip_ws_def is_ws_def json_value_Cons
          json_number_def json_int_def is_digit_def
          nt [THEN number_text_comma] nt [THEN ws]
          del: json_value.simps(2))
  next
    assume "ostream_double L (error_percent r) = ''nan''"
    with assms(1) show ?thesis
      by (simp add: json_text_def json_parse_def skip_ws_def is_ws_def json_value_Cons
          json_number_def json_int_def is_digit_def
          nt [THEN number_text_comma] nt [THEN ws]
          del: json_value.simps(2))
  qed
qed

text \<open>
  C1 on the code. \<open>write_result_json\<close> writes \<open>error_message\<close> between two quotes as
  it is, without escaping. For the path \<open>a"b.png\<close>, at which no file exists,
  \<open>run_pipeline\<close> returns the message \<open>Image file not found: a"b.png\<close>; the text
  \<open>write_result_json\<close> then writes to \<open>out.json\<close> is not JSON: the string value of
  \<open>error\<close> ends at the quote of the path, and \<open>b.png"\<close> follows it.
\<close>

theorem write_result_json_unescaped_message:
  \<open>run_pipeline missing_file_external ''a"b.png'' sample_camera (dlit 26 1)
     = Inr (RunResult_init\<lparr>ground_truth_m := dlit 26 1,
              error_message := ''Image file not found: a"b.png''\<rparr>)
   \<and> write_result_json (L\<lparr>ofstream_open := \<lambda>p. True\<rparr>) ''out.json''
         (s\<lparr>arg_r := RunResult_init\<lparr>ground_truth_m := dlit 26 1,
                         error_message := ''Image file not found: a"b.png''\<rparr>\<rparr>)
       = (None,
          s\<lparr>arg_r := RunResult_init\<lparr>ground_truth_m := dlit 26 1,
                        error_message := ''Image file not found: a"b.png''\<rparr>,
            files := (files s)(''out.json'' \<mapsto>
              ''{\<newline>  "success": false,\<newline>  "error": "Image file not found: a"b.png"\<newline>}\<newline>'')\<rparr>)
   \<and> json_parse
         ''{\<newline>  "success": false,\<newline>  "error": "Image file not found: a"b.png"\<newline>}\<newline>''
       = Syntax_Error\<close>
proof (intro conjI)
  show \<open>run_pipeline missing_file_external ''a"b.png'' sample_camera (dlit 26 1)
     = Inr (RunResult_init\<lparr>ground_truth_m := dlit 26 1,
              error_message := ''Image file not found: a"b.png''\<rparr>)\<close>
    by (simp add: missing_run)
  show \<open>write_result_json (L\<lparr>ofstream_open := \<lambda>p. True\<rparr>) ''out.json''
         (s\<lparr>arg_r := RunResult_init\<lparr>ground_truth_m := dlit 26 1,
                         error_message := ''Image file not found: a"b.png''\<rparr>\<rparr>)
       = (None,
          s\<lparr>arg_r := RunResult_init\<lparr>ground_truth_m := dlit 26 1,
                        error_message := ''Image file not found: a"b.png''\<rparr>,
            files := (files s)(''out.json'' \<mapsto>
              ''{\<newline>  "success": false,\<newline>  "error": "Image file not found: a"b.png"\<newline>}\<newline>'')\<rparr>)\<close>
    by (simp add: write_result_json_def json_text_def c_str_def RunResult_init_def)
  show \<open>json_parse
         ''{\<newline>  "success": false,\<newline>  "error": "Image file not found: a"b.png"\<newline>}\<newline>''
       = Syntax_Error\<close>
    by (simp add: json_eval cong: let_weak_cong)
qed

end
